theory Spec2Isabelle
  imports Main "HOL-Library.AList"
begin

section \<open>Firefox add-on installation (selenium-webdriver, firefox/extension.js)\<close>

text \<open>
  A shallow embedding of \<^verbatim>\<open>javascript/node/selenium-webdriver/firefox/extension.js\<close>.
  Promises are modelled by their outcome: a rejected promise (or a thrown exception) is
  \<open>Inl\<close> of an error, a resolved one is \<open>Inr\<close> of its value, and \<^verbatim>\<open>.then\<close> is
  sequencing that passes the first rejection on.
\<close>

subsection \<open>JavaScript values\<close>

text \<open>
  The values that \<^verbatim>\<open>xml2js\<close> and \<^verbatim>\<open>JSON.parse\<close> produce. An object is the list of
  its own properties in enumeration order; where a key is listed twice the first entry
  is the property. A \<open>char\<close> stands for one code unit of a JavaScript string. Numbers
  occur in JSON manifests only, and this module only tests them for being zero, so the
  model keeps the integers.
\<close>

datatype jsval =
    Undefined
  | Null
  | Bool bool
  | Num int
  | Str string
  | Arr "jsval list"
  | Obj "(string \<times> jsval) list"

datatype error =
    AddonFormatError string  \<comment> \<open>\<^verbatim>\<open>new AddonFormatError(msg)\<close>\<close>
  | JsError string           \<comment> \<open>\<^verbatim>\<open>Error(msg)\<close> thrown by this module\<close>
  | TypeError                \<comment> \<open>raised by the runtime on a property read of undefined or null\<close>
  | XmlError string          \<comment> \<open>the error \<^verbatim>\<open>xml.parseString\<close> passes to its callback\<close>
  | SyntaxError string       \<comment> \<open>thrown by \<^verbatim>\<open>JSON.parse\<close>\<close>
  | ZipError string          \<comment> \<open>rejection of the archive reader\<close>
  | IoError string string    \<comment> \<open>rejection of a filesystem operation: the operation and the path\<close>

definition andThen :: "error + 'a \<Rightarrow> ('a \<Rightarrow> error + 'b) \<Rightarrow> error + 'b" where
  "andThen m f = (case m of Inl e \<Rightarrow> Inl e | Inr x \<Rightarrow> f x)"

fun truthy :: "jsval \<Rightarrow> bool" where
  "truthy Undefined = False"
| "truthy Null = False"
| "truthy (Bool b) = b"
| "truthy (Num n) = (n \<noteq> 0)"
| "truthy (Str s) = (s \<noteq> [])"
| "truthy (Arr xs) = True"
| "truthy (Obj kvs) = True"

text \<open>
  \<^verbatim>\<open>v[k]\<close> for a string key. The keys this module reads end in \<^verbatim>\<open>RDF\<close>,
  \<^verbatim>\<open>Description\<close>, \<^verbatim>\<open>id\<close>, \<^verbatim>\<open>name\<close>, \<^verbatim>\<open>version\<close>, \<^verbatim>\<open>unpack\<close>,
  \<^verbatim>\<open>applications\<close>, \<^verbatim>\<open>gecko\<close> or are the attribute key (a dollar sign): none is an index, \<^verbatim>\<open>length\<close> or a
  member of a builtin prototype, so on anything but an object the read gives undefined.
\<close>

fun getProp :: "jsval \<Rightarrow> string \<Rightarrow> error + jsval" where
  "getProp Undefined k = Inl TypeError"
| "getProp Null k = Inl TypeError"
| "getProp (Obj kvs) k = Inr (case map_of kvs k of Some v \<Rightarrow> v | None \<Rightarrow> Undefined)"
| "getProp v k = Inr Undefined"

text \<open>\<^verbatim>\<open>v[0]\<close>.\<close>

fun index0 :: "jsval \<Rightarrow> error + jsval" where
  "index0 Undefined = Inl TypeError"
| "index0 Null = Inl TypeError"
| "index0 (Arr xs) = Inr (case xs of [] \<Rightarrow> Undefined | x # _ \<Rightarrow> x)"
| "index0 (Str s) = Inr (case s of [] \<Rightarrow> Undefined | c # _ \<Rightarrow> Str [c])"
| "index0 (Obj kvs) = Inr (case map_of kvs ''0'' of Some v \<Rightarrow> v | None \<Rightarrow> Undefined)"
| "index0 v = Inr Undefined"

text \<open>Decimal rendering of an array index, as used for the keys of arrays and strings.\<close>

definition digit_char :: "nat \<Rightarrow> char" where
  "digit_char d = char_of (48 + d)"

fun show_nat :: "nat \<Rightarrow> string" where
  "show_nat n = (if n < 10 then [digit_char n] else show_nat (n div 10) @ [digit_char (n mod 10)])"

declare show_nat.simps [simp del]

text \<open>
  The own enumerable properties of a value with their values, in the order of
  \<^verbatim>\<open>Object.keys\<close>; \<^verbatim>\<open>Object.keys(undefined)\<close> and \<^verbatim>\<open>Object.keys(null)\<close> throw.
\<close>

fun ownProps :: "jsval \<Rightarrow> error + (string \<times> jsval) list" where
  "ownProps Undefined = Inl TypeError"
| "ownProps Null = Inl TypeError"
| "ownProps (Obj kvs) = Inr (AList.clearjunk kvs)"
| "ownProps (Arr xs) = Inr (zip (map show_nat [0..<length xs]) xs)"
| "ownProps (Str s) = Inr (zip (map show_nat [0..<length s]) (map (\<lambda>c. Str [c]) s))"
| "ownProps v = Inr []"

subsection \<open>Strings\<close>

text \<open>\<^verbatim>\<open>s.slice(-4)\<close>: the last four code units, or all of a shorter string.\<close>

definition slice_last4 :: "string \<Rightarrow> string" where
  "slice_last4 s = drop (length s - 4) s"

text \<open>\<^verbatim>\<open>s.split(c)\<close> for a one-character separator.\<close>

fun split_on :: "char \<Rightarrow> string \<Rightarrow> string list" where
  "split_on c [] = [[]]"
| "split_on c (x # xs) =
     (if x = c then [] # split_on c xs
      else (case split_on c xs of [] \<Rightarrow> [[x]] | y # ys \<Rightarrow> (x # y) # ys))"

text \<open>
  \<^verbatim>\<open>s.toLowerCase()\<close> on the letters A to Z. No character outside that range has a
  lower-case form among \<^verbatim>\<open>t\<close>, \<^verbatim>\<open>r\<close>, \<^verbatim>\<open>u\<close>, \<^verbatim>\<open>e\<close>, so the comparison with
  \<^verbatim>\<open>'true'\<close> below is the one JavaScript makes.
\<close>

definition lower_char :: "char \<Rightarrow> char" where
  "lower_char c =
     (case map_of (zip ''ABCDEFGHIJKLMNOPQRSTUVWXYZ'' ''abcdefghijklmnopqrstuvwxyz'') c of
        Some l \<Rightarrow> l
      | None \<Rightarrow> c)"

definition toLowerCase :: "string \<Rightarrow> string" where
  "toLowerCase s = map lower_char s"

subsection \<open>The legacy manifest: install.rdf\<close>

record AddonDetails =
  addon_id :: jsval
  name :: jsval
  version :: jsval
  unpack :: jsval

text \<open>\<^verbatim>\<open>node[name] && node[name][0] || ''\<close>\<close>

definition getNodeText :: "jsval \<Rightarrow> string \<Rightarrow> error + jsval" where
  "getNodeText node nm =
     andThen (getProp node nm) (\<lambda>a.
       if \<not> truthy a then Inr (Str [])
       else andThen (index0 a) (\<lambda>b. Inr (if truthy b then b else Str [])))"

text \<open>
  The callback of \<^verbatim>\<open>Object.keys(namespaces).some(...)\<close>, run over the properties in
  order until it returns true; the result is the final value of \<^verbatim>\<open>id\<close>.
  \<^verbatim>\<open>ns.split(':')[1] + ':'\<close> would read \<^verbatim>\<open>undefined\<close> if the split had one part.
\<close>

fun scanNamespaces :: "(string \<times> jsval) list \<Rightarrow> string \<Rightarrow> string" where
  "scanNamespaces [] url = []"
| "scanNamespaces ((ns, v) # rest) url =
     (if v \<noteq> Str url then scanNamespaces rest url
      else if CHR '':'' \<in> set ns
        then (case split_on CHR '':'' ns of _ # p # _ \<Rightarrow> p | _ \<Rightarrow> ''undefined'') @ '':''
        else [])"

definition getNamespaceId :: "string \<Rightarrow> jsval \<Rightarrow> string \<Rightarrow> error + string" where
  "getNamespaceId addonPath doc url =
     andThen (ownProps doc) (\<lambda>keys.
       if length keys \<noteq> 1
       then Inl (AddonFormatError (''Malformed manifest for add-on '' @ addonPath))
       else andThen (getProp (snd (hd keys)) ''$'') (\<lambda>namespaces.
            andThen (ownProps namespaces) (\<lambda>nss. Inr (scanNamespaces nss url))))"

definition em_uri :: string where
  "em_uri = ''http://www.mozilla.org/2004/em-rdf#''"

definition rdf_uri :: string where
  "rdf_uri = ''http://www.w3.org/1999/02/22-rdf-syntax-ns#''"

text \<open>\<^verbatim>\<open>doc[rdf + 'RDF'][rdf + 'Description'][0]\<close>\<close>

definition getDescription :: "jsval \<Rightarrow> string \<Rightarrow> error + jsval" where
  "getDescription doc rdf =
     andThen (getProp doc (rdf @ ''RDF'')) (\<lambda>r.
     andThen (getProp r (rdf @ ''Description'')) (\<lambda>ds. index0 ds))"

text \<open>
  \<^verbatim>\<open>getNodeText(description, em + 'unpack') || false\<close>, then the lower-case comparison
  when the value is a string.
\<close>

definition unpackValue :: "jsval \<Rightarrow> jsval" where
  "unpackValue t =
     (let u = (if truthy t then t else Bool False)
      in case u of Str s \<Rightarrow> Bool (toLowerCase s = ''true'') | _ \<Rightarrow> u)"

text \<open>The function passed to \<^verbatim>\<open>parseXml(rdf).then\<close>.\<close>

definition parseInstallRdf_doc :: "string \<Rightarrow> jsval \<Rightarrow> error + AddonDetails" where
  "parseInstallRdf_doc addonPath doc =
     andThen (getNamespaceId addonPath doc em_uri) (\<lambda>em.
     andThen (getNamespaceId addonPath doc rdf_uri) (\<lambda>rdf.
     andThen (getDescription doc rdf) (\<lambda>description.
     andThen (getNodeText description (em @ ''id'')) (\<lambda>i.
     andThen (getNodeText description (em @ ''name'')) (\<lambda>n.
     andThen (getNodeText description (em @ ''version'')) (\<lambda>v.
     andThen (getNodeText description (em @ ''unpack'')) (\<lambda>u.
       if \<not> truthy i
       then Inl (AddonFormatError (''Could not find add-on ID for '' @ addonPath))
       else Inr \<lparr>addon_id = i, name = n, version = v, unpack = unpackValue u\<rparr>)))))))"

subsection \<open>The modern manifest: manifest.json\<close>

text \<open>
  \<^verbatim>\<open>parseManifestJson({name, version, applications})\<close>: the parameter is destructured
  (which throws on undefined and null), then the guard
  \<^verbatim>\<open>applications && applications.gecko && applications.gecko.id\<close> is tested.
\<close>

definition parseManifestJson :: "string \<Rightarrow> jsval \<Rightarrow> error + AddonDetails" where
  "parseManifestJson addonPath json =
     andThen (getProp json ''name'') (\<lambda>nm.
     andThen (getProp json ''version'') (\<lambda>ver.
     andThen (getProp json ''applications'') (\<lambda>applications.
       if \<not> truthy applications
       then Inl (AddonFormatError (''Could not find add-on ID for '' @ addonPath))
       else andThen (getProp applications ''gecko'') (\<lambda>gecko.
         if \<not> truthy gecko
         then Inl (AddonFormatError (''Could not find add-on ID for '' @ addonPath))
         else andThen (getProp gecko ''id'') (\<lambda>i.
           if \<not> truthy i
           then Inl (AddonFormatError (''Could not find add-on ID for '' @ addonPath))
           else Inr \<lparr>addon_id = i, name = nm, version = ver, unpack = Bool False\<rparr>)))))"

subsection \<open>Libraries and collaborators\<close>

text \<open>
  The libraries outside the repository are parameters: \<^verbatim>\<open>xml2js\<close>'s parser,
  \<^verbatim>\<open>JSON.parse\<close>, \<^verbatim>\<open>path.join\<close> (which depends on the platform) and the decoder of
  the zip format. A failure of a library is \<open>Inl\<close> of its message.
\<close>

record libs =
  parseString :: "string \<Rightarrow> string + jsval"
  JSON_parse :: "string \<Rightarrow> string + jsval"
  path_join :: "string \<Rightarrow> string \<Rightarrow> string"
  zip_entries :: "string \<Rightarrow> string + (string \<times> string) list"

text \<open>
  The filesystem: what each path names, a regular file with its bytes or a directory.
  The members of a directory \<open>d\<close> are the paths \<open>d/rest\<close>.
\<close>

datatype fsnode = File string | Directory

type_synonym world = "string \<Rightarrow> fsnode option"

text \<open>
  The collaborators \<^verbatim>\<open>../io\<close> and \<^verbatim>\<open>../io/zip\<close> belong to the repository but
  are not among the sources; each operation below follows section 6 of the spec. A
  failure of an operation is an I/O error naming the path.
\<close>

text \<open>
  Modelled from the spec: \<^verbatim>\<open>io.stat\<close> is missing;
  \<^verbatim>\<open>stat(path) -> {isDirectory(): bool}\<close>. The result is the answer of
  \<^verbatim>\<open>isDirectory()\<close>; stat fails on a path that names nothing.
\<close>

definition io_stat :: "world \<Rightarrow> string \<Rightarrow> error + bool" where
  "io_stat w p =
     (case w p of
        None \<Rightarrow> Inl (IoError ''stat'' p)
      | Some (File b) \<Rightarrow> Inr False
      | Some Directory \<Rightarrow> Inr True)"

text \<open>Modelled from the spec: \<^verbatim>\<open>io.exists\<close> is missing; \<^verbatim>\<open>exists(path) -> bool\<close>.\<close>

definition io_exists :: "world \<Rightarrow> string \<Rightarrow> bool" where
  "io_exists w p = (w p \<noteq> None)"

text \<open>
  Modelled from the spec: \<^verbatim>\<open>io.read\<close> is missing; \<^verbatim>\<open>read(path) -> bytes\<close>, a
  whole-file read.
\<close>

definition io_read :: "world \<Rightarrow> string \<Rightarrow> error + string" where
  "io_read w p = (case w p of Some (File b) \<Rightarrow> Inr b | _ \<Rightarrow> Inl (IoError ''read'' p))"

text \<open>
  Modelled from the spec: \<^verbatim>\<open>io.copy\<close> is missing; \<^verbatim>\<open>copyFile(src, dst) -> void\<close>, a
  single-file copy: the destination holds the bytes of the source afterwards.
\<close>

definition io_copy :: "string \<Rightarrow> string \<Rightarrow> world \<Rightarrow> error + world" where
  "io_copy src dst w =
     (case w src of Some (File b) \<Rightarrow> Inr (w(dst \<mapsto> File b)) | _ \<Rightarrow> Inl (IoError ''copy'' src))"

text \<open>The rest of a path below the directory \<open>d\<close>, when the path is below it.\<close>

definition under :: "string \<Rightarrow> string \<Rightarrow> string option" where
  "under d p = (if take (length d + 1) p = d @ ''/'' then Some (drop (length d + 1) p) else None)"

text \<open>
  Modelled from the spec: \<^verbatim>\<open>io.copyDir\<close> is missing;
  \<^verbatim>\<open>copyDirectory(src, dst) -> void\<close>, a recursive copy that mirrors the source tree:
  the destination is a directory, and every member of the source is found at the same
  place below the destination.
\<close>

definition io_copyDir :: "string \<Rightarrow> string \<Rightarrow> world \<Rightarrow> error + world" where
  "io_copyDir src dst w =
     (if w src = Some Directory
      then Inr (\<lambda>p. if p = dst then Some Directory
                    else (case under dst p of
                            None \<Rightarrow> w p
                          | Some rest \<Rightarrow>
                              (case w (src @ ''/'' @ rest) of None \<Rightarrow> w p | Some n \<Rightarrow> Some n)))
      else Inl (IoError ''copyDir'' src))"

text \<open>
  Modelled from the spec: \<^verbatim>\<open>zip.load\<close> is missing; \<^verbatim>\<open>open(path) -> archiveHandle\<close>.
  An archive handle is the list of the entries with their bytes, decoded from the bytes
  of the file.
\<close>

definition zip_load :: "libs \<Rightarrow> world \<Rightarrow> string \<Rightarrow> error + (string \<times> string) list" where
  "zip_load L w p =
     andThen (io_read w p) (\<lambda>bytes.
       case zip_entries L bytes of Inl m \<Rightarrow> Inl (ZipError m) | Inr es \<Rightarrow> Inr es)"

text \<open>Modelled from the spec: \<^verbatim>\<open>archive.has\<close> is missing; \<^verbatim>\<open>has(entryName) -> bool\<close>.\<close>

definition archive_has :: "(string \<times> string) list \<Rightarrow> string \<Rightarrow> bool" where
  "archive_has archive n = (map_of archive n \<noteq> None)"

text \<open>
  Modelled from the spec: \<^verbatim>\<open>archive.getFile\<close> is missing;
  \<^verbatim>\<open>readEntry(entryName) -> bytes\<close>.
\<close>

definition archive_getFile :: "(string \<times> string) list \<Rightarrow> string \<Rightarrow> error + string" where
  "archive_getFile archive n = (case map_of archive n of None \<Rightarrow> Inl (ZipError n) | Some b \<Rightarrow> Inr b)"

text \<open>
  Modelled from the spec: \<^verbatim>\<open>zip.unzip\<close> is missing; \<^verbatim>\<open>extractAll(path, destDir)\<close>
  expands the entries of the archive into the directory.
\<close>

definition zip_unzip :: "libs \<Rightarrow> string \<Rightarrow> string \<Rightarrow> world \<Rightarrow> error + world" where
  "zip_unzip L src dst w =
     andThen (zip_load L w src) (\<lambda>archive.
       Inr (fold (\<lambda>(n, b) w'. w'(path_join L dst n \<mapsto> File b)) archive (w(dst \<mapsto> Directory))))"

subsection \<open>Locating the manifest\<close>

text \<open>\<^verbatim>\<open>parseXml(rdf).then(...)\<close>: the parser's error is passed to \<^verbatim>\<open>reject\<close>.\<close>

definition parseInstallRdf :: "libs \<Rightarrow> string \<Rightarrow> string \<Rightarrow> error + AddonDetails" where
  "parseInstallRdf L addonPath rdf =
     (case parseString L rdf of
        Inl m \<Rightarrow> Inl (XmlError m)
      | Inr doc \<Rightarrow> parseInstallRdf_doc addonPath doc)"

definition parseJson :: "libs \<Rightarrow> string \<Rightarrow> error + jsval" where
  "parseJson L buf = (case JSON_parse L buf of Inl m \<Rightarrow> Inl (SyntaxError m) | Inr v \<Rightarrow> Inr v)"

definition parseXpiFile :: "libs \<Rightarrow> world \<Rightarrow> string \<Rightarrow> string \<Rightarrow> error + AddonDetails" where
  "parseXpiFile L w addonPath filePath =
     andThen (zip_load L w filePath) (\<lambda>archive.
       if archive_has archive ''install.rdf''
       then andThen (archive_getFile archive ''install.rdf'') (parseInstallRdf L addonPath)
       else if archive_has archive ''manifest.json''
       then andThen (archive_getFile archive ''manifest.json'') (\<lambda>buf.
              andThen (parseJson L buf) (parseManifestJson addonPath))
       else Inl (AddonFormatError (''Couldn't find install.rdf or manifest.json in '' @ filePath)))"

definition parseDirectory :: "libs \<Rightarrow> world \<Rightarrow> string \<Rightarrow> string \<Rightarrow> error + AddonDetails" where
  "parseDirectory L w addonPath dirPath =
     (let rdfPath = path_join L dirPath ''install.rdf'';
          jsonPath = path_join L dirPath ''manifest.json''
      in if io_exists w rdfPath
         then andThen (io_read w rdfPath) (parseInstallRdf L addonPath)
         else if io_exists w jsonPath
         then andThen (io_read w jsonPath) (\<lambda>buf.
                andThen (parseJson L buf) (parseManifestJson addonPath))
         else Inl (AddonFormatError (''Couldn't find install.rdf or manifest.json in '' @ dirPath)))"

definition getDetails :: "libs \<Rightarrow> world \<Rightarrow> string \<Rightarrow> error + AddonDetails" where
  "getDetails L w addonPath =
     andThen (io_stat w addonPath) (\<lambda>isDirectory.
       if isDirectory then parseDirectory L w addonPath addonPath
       else if slice_last4 addonPath = ''.xpi'' then parseXpiFile L w addonPath addonPath
       else Inl (JsError (''Add-on path is not an xpi or a directory: '' @ addonPath)))"

subsection \<open>Installing\<close>

text \<open>\<^verbatim>\<open>path.join(dir, details.id)\<close> throws a TypeError unless the id is a string.\<close>

definition joinId :: "libs \<Rightarrow> string \<Rightarrow> jsval \<Rightarrow> error + string" where
  "joinId L dir i = (case i of Str s \<Rightarrow> Inr (path_join L dir s) | _ \<Rightarrow> Inl TypeError)"

definition install :: "libs \<Rightarrow> string \<Rightarrow> string \<Rightarrow> world \<Rightarrow> error + (jsval \<times> world)" where
  "install L extension dir w =
     andThen (getDetails L w extension) (\<lambda>details.
     andThen (joinId L dir (addon_id details)) (\<lambda>dst.
       if slice_last4 extension = ''.xpi''
       then if \<not> truthy (unpack details)
            then andThen (io_copy extension (dst @ ''.xpi'') w) (\<lambda>w'. Inr (addon_id details, w'))
            else andThen (zip_unzip L extension dst w) (\<lambda>w'. Inr (addon_id details, w'))
       else andThen (io_copyDir extension dst w) (\<lambda>w'. Inr (addon_id details, w'))))"

subsection \<open>Notions used to state the properties\<close>

text \<open>A text equals \<^verbatim>\<open>true\<close> up to the case of its four letters.\<close>

fun equalsTrueIgnoringCase :: "string \<Rightarrow> bool" where
  "equalsTrueIgnoringCase [a, b, c, d] =
     (a \<in> {CHR ''t'', CHR ''T''} \<and> b \<in> {CHR ''r'', CHR ''R''} \<and>
      c \<in> {CHR ''u'', CHR ''U''} \<and> d \<in> {CHR ''e'', CHR ''E''})"
| "equalsTrueIgnoringCase t = False"

text \<open>
  A legacy manifest as \<^verbatim>\<open>xml2js\<close> delivers it: the RDF namespace is the default one,
  the metadata namespace has the prefix \<^verbatim>\<open>em\<close>; the further children of the
  description are a parameter.
\<close>

definition sample_description :: "(string \<times> jsval) list \<Rightarrow> jsval" where
  "sample_description children =
     Obj ([(''$'', Obj [(''about'', Str ''urn:mozilla:install-manifest'')]),
           (''em:id'', Arr [Str ''sample@example.org'']),
           (''em:name'', Arr [Str ''Sample'']),
           (''em:version'', Arr [Str ''1.0''])] @ children)"

definition sample_rdf_doc :: "(string \<times> jsval) list \<Rightarrow> jsval" where
  "sample_rdf_doc children =
     Obj [(''RDF'', Obj [
       (''$'', Obj [(''xmlns'', Str rdf_uri), (''xmlns:em'', Str em_uri)]),
       (''Description'', Arr [sample_description children])])]"

text \<open>
  The value found by following a path of keys through nested objects; \<open>None\<close> when a
  segment of the path is absent.
\<close>

fun member :: "jsval \<Rightarrow> string \<Rightarrow> jsval option" where
  "member (Obj kvs) k = map_of kvs k"
| "member v k = None"

fun atPath :: "jsval \<Rightarrow> string list \<Rightarrow> jsval option" where
  "atPath v [] = Some v"
| "atPath v (k # ks) = (case member v k of None \<Rightarrow> None | Some c \<Rightarrow> atPath c ks)"

definition sample_manifest :: jsval where
  "sample_manifest =
     Obj [(''name'', Str ''Sample''), (''version'', Str ''1.0''),
          (''applications'', Obj [(''gecko'', Obj [(''id'', Str ''sample@example.org'')])])]"

text \<open>
  A sample environment: stand-ins for the libraries that know one install.rdf, one
  manifest.json and one archive, and a filesystem with a packed add-on, three
  unpacked ones and a profile directory.
\<close>

definition sample_rdf_text :: string where
  \<open>sample_rdf_text = ''<RDF xmlns="http://www.w3.org/1999/02/22-rdf-syntax-ns#" xmlns:em="http://www.mozilla.org/2004/em-rdf#"><Description about="urn:mozilla:install-manifest"><em:id>sample@example.org</em:id><em:name>Sample</em:name><em:version>1.0</em:version></Description></RDF>''\<close>

definition sample_json_text :: string where
  \<open>sample_json_text = ''{"name": "Sample", "version": "1.0", "applications": {"gecko": {"id": "sample@example.org"}}}''\<close>

definition sample_xpi_bytes :: string where
  "sample_xpi_bytes = ''PK: manifest.json''"

definition sample_libs :: libs where
  "sample_libs =
     \<lparr>parseString = (\<lambda>text. if text = sample_rdf_text then Inr (sample_rdf_doc [])
                          else if text = [] then Inr Null
                          else Inl ''Unclosed root tag''),
      JSON_parse = (\<lambda>text. if text = sample_json_text then Inr sample_manifest
                         else Inl ''Unexpected end of JSON input''),
      path_join = (\<lambda>a b. a @ ''/'' @ b),
      zip_entries = (\<lambda>bytes. if bytes = sample_xpi_bytes
                           then Inr [(''manifest.json'', sample_json_text)]
                           else Inl ''not a zip file'')\<rparr>"

definition sample_world :: world where
  "sample_world = map_of
     [(''/src/sample.xpi'', File sample_xpi_bytes),
      (''/src/legacy'', Directory),
      (''/src/legacy/install.rdf'', File sample_rdf_text),
      (''/src/legacy/manifest.json'', File sample_json_text),
      (''/src/legacy/chrome'', Directory),
      (''/src/legacy/chrome/a.js'', File ''a()''),
      (''/src/modern'', Directory),
      (''/src/modern/manifest.json'', File sample_json_text),
      (''/src/empty'', Directory),
      (''/src/dir.xpi'', Directory),
      (''/src/dir.xpi/manifest.json'', File sample_json_text),
      (''/src/notes.txt'', File ''notes''),
      (''/profile/extensions'', Directory)]"

section \<open>Properties\<close>

subsection \<open>Evaluation and auxiliary facts\<close>

lemmas legacy_defs = andThen_def getNamespaceId_def getDescription_def getNodeText_def
  parseInstallRdf_doc_def unpackValue_def toLowerCase_def lower_char_def em_uri_def rdf_uri_def
  sample_rdf_doc_def sample_description_def

lemmas sample_defs = sample_libs_def sample_world_def sample_rdf_text_def sample_json_text_def
  sample_xpi_bytes_def sample_manifest_def

lemmas locate_defs = getDetails_def parseDirectory_def parseXpiFile_def parseInstallRdf_def
  parseJson_def parseManifestJson_def io_stat_def io_exists_def io_read_def zip_load_def
  archive_has_def archive_getFile_def slice_last4_def


lemma lower_char_t: "lower_char c = CHR ''t'' \<longleftrightarrow> c = CHR ''t'' \<or> c = CHR ''T''"
  by (auto simp: lower_char_def split: if_splits)

lemma lower_char_r: "lower_char c = CHR ''r'' \<longleftrightarrow> c = CHR ''r'' \<or> c = CHR ''R''"
  by (auto simp: lower_char_def split: if_splits)

lemma lower_char_u: "lower_char c = CHR ''u'' \<longleftrightarrow> c = CHR ''u'' \<or> c = CHR ''U''"
  by (auto simp: lower_char_def split: if_splits)

lemma lower_char_e: "lower_char c = CHR ''e'' \<longleftrightarrow> c = CHR ''e'' \<or> c = CHR ''E''"
  by (auto simp: lower_char_def split: if_splits)

lemma toLowerCase_true: "toLowerCase t = ''true'' \<longleftrightarrow> equalsTrueIgnoringCase t"
proof (cases "\<exists>a b c d. t = [a, b, c, d]")
  case True
  then obtain a b c d where t: "t = [a, b, c, d]" by blast
  show ?thesis
    unfolding t toLowerCase_def by (simp add: lower_char_t lower_char_r lower_char_u lower_char_e)
next
  case False
  then have "\<not> equalsTrueIgnoringCase t"
    by (induction t rule: equalsTrueIgnoringCase.induct) simp_all
  moreover have "toLowerCase t \<noteq> ''true''"
    using False unfolding toLowerCase_def by (auto simp: map_eq_Cons_conv)
  ultimately show ?thesis by simp
qed

lemma unpackValue_Str: "unpackValue (Str t) = Bool (equalsTrueIgnoringCase t)"
proof (cases t)
  case Nil
  then show ?thesis by (simp add: unpackValue_def)
next
  case (Cons a list)
  then show ?thesis using toLowerCase_true [of t] by (simp add: unpackValue_def)
qed

lemma getNodeText_text:
  "getProp node nm = Inr (Arr (Str t # elems)) \<Longrightarrow> getNodeText node nm = Inr (Str t)"
  by (simp add: getNodeText_def andThen_def)

lemma getNodeText_absent:
  "getProp node nm = Inr Undefined \<Longrightarrow> getNodeText node nm = Inr (Str [])"
  by (simp add: getNodeText_def andThen_def)

lemma parseInstallRdf_doc_unpack:
  assumes "getNamespaceId addonPath doc em_uri = Inr em"
    and "getNamespaceId addonPath doc rdf_uri = Inr rdf"
    and "getDescription doc rdf = Inr description"
    and "parseInstallRdf_doc addonPath doc = Inr d"
  shows "\<exists>u. getNodeText description (em @ ''unpack'') = Inr u \<and> unpack d = unpackValue u"
  using assms unfolding parseInstallRdf_doc_def andThen_def
  by (auto split: sum.splits if_splits)

lemma sample_em: "getNamespaceId p (sample_rdf_doc cs) em_uri = Inr ''em:''"
  by (simp add: legacy_defs)

lemma sample_rdf: "getNamespaceId p (sample_rdf_doc cs) rdf_uri = Inr []"
  by (simp add: legacy_defs)

lemma sample_desc: "getDescription (sample_rdf_doc cs) [] = Inr (sample_description cs)"
  by (simp add: legacy_defs)

subsection \<open>The unpack flag of the legacy manifest\<close>

text \<open>
  Claim C7. In the legacy parser, for a description whose first unpack element has the
  text \<open>t\<close>, the descriptor's unpack field is the boolean telling whether \<open>t\<close> equals
  \<^verbatim>\<open>true\<close> up to letter case (so it is true exactly then, and false for every other
  text); when the description has no unpack element the field is false.
\<close>

theorem legacy_unpack_flag:
  assumes "getNamespaceId addonPath doc em_uri = Inr em"
    and "getNamespaceId addonPath doc rdf_uri = Inr rdf"
    and "getDescription doc rdf = Inr description"
    and "parseInstallRdf_doc addonPath doc = Inr d"
  shows "(getProp description (em @ ''unpack'') = Inr (Arr (Str t # elems))
           \<longrightarrow> unpack d = Bool (equalsTrueIgnoringCase t))
       \<and> (getProp description (em @ ''unpack'') = Inr Undefined \<longrightarrow> unpack d = Bool False)"
proof -
  obtain u where u: "getNodeText description (em @ ''unpack'') = Inr u" "unpack d = unpackValue u"
    using parseInstallRdf_doc_unpack [OF assms] by blast
  show ?thesis
    using u by (auto simp: getNodeText_text getNodeText_absent unpackValue_Str)
qed

theorem legacy_unpack_flag_witness:
  "parseInstallRdf_doc ''/addons/sample'' (sample_rdf_doc [(''em:unpack'', Arr [Str ''True''])])
     = Inr \<lparr>addon_id = Str ''sample@example.org'', name = Str ''Sample'',
            version = Str ''1.0'', unpack = Bool True\<rparr>
   \<and> parseInstallRdf_doc ''/addons/sample'' (sample_rdf_doc [(''em:unpack'', Arr [Str ''yes''])])
     = Inr \<lparr>addon_id = Str ''sample@example.org'', name = Str ''Sample'',
            version = Str ''1.0'', unpack = Bool False\<rparr>
   \<and> parseInstallRdf_doc ''/addons/sample'' (sample_rdf_doc [])
     = Inr \<lparr>addon_id = Str ''sample@example.org'', name = Str ''Sample'',
            version = Str ''1.0'', unpack = Bool False\<rparr>"
proof -
  let ?p = "''/addons/sample''"
  let ?d = "\<lambda>b. \<lparr>addon_id = Str ''sample@example.org'', name = Str ''Sample'',
                  version = Str ''1.0'', unpack = b\<rparr>"
  obtain d1 where d1: "parseInstallRdf_doc ?p (sample_rdf_doc [(''em:unpack'', Arr [Str ''True''])]) = Inr d1"
    and r1: "d1 = ?d (unpack d1)"
    by (simp add: legacy_defs)
  obtain d2 where d2: "parseInstallRdf_doc ?p (sample_rdf_doc [(''em:unpack'', Arr [Str ''yes''])]) = Inr d2"
    and r2: "d2 = ?d (unpack d2)"
    by (simp add: legacy_defs)
  obtain d3 where d3: "parseInstallRdf_doc ?p (sample_rdf_doc []) = Inr d3"
    and r3: "d3 = ?d (unpack d3)"
    by (simp add: legacy_defs)
  have "unpack d1 = Bool True"
    using legacy_unpack_flag [OF sample_em sample_rdf sample_desc d1, of "''True''" "[]"]
    by (simp add: sample_description_def)
  moreover have "unpack d2 = Bool False"
    using legacy_unpack_flag [OF sample_em sample_rdf sample_desc d2, of "''yes''" "[]"]
    by (simp add: sample_description_def)
  moreover have "unpack d3 = Bool False"
    using legacy_unpack_flag [OF sample_em sample_rdf sample_desc d3]
    by (simp add: sample_description_def)
  ultimately show ?thesis
    using d1 d2 d3 r1 r2 r3 by simp
qed

text \<open>
  Claim C10. In the legacy parser, an unpack element that is present with empty text
  gives the descriptor the boolean false as its unpack field, not the empty string:
  the value it has when the element is absent.
\<close>

theorem legacy_unpack_empty_text:
  assumes "getNamespaceId addonPath doc em_uri = Inr em"
    and "getNamespaceId addonPath doc rdf_uri = Inr rdf"
    and "getDescription doc rdf = Inr description"
    and "parseInstallRdf_doc addonPath doc = Inr d"
  shows "(getProp description (em @ ''unpack'') = Inr (Arr (Str [] # elems))
           \<longrightarrow> unpack d = Bool False \<and> unpack d \<noteq> Str [])
       \<and> (getProp description (em @ ''unpack'') = Inr Undefined \<longrightarrow> unpack d = Bool False)"
proof -
  obtain u where u: "getNodeText description (em @ ''unpack'') = Inr u" "unpack d = unpackValue u"
    using parseInstallRdf_doc_unpack [OF assms] by blast
  show ?thesis
    using u by (auto simp: getNodeText_text getNodeText_absent unpackValue_Str)
qed

theorem legacy_unpack_empty_text_witness:
  "parseInstallRdf_doc ''/addons/sample'' (sample_rdf_doc [(''em:unpack'', Arr [Str []])])
     = Inr \<lparr>addon_id = Str ''sample@example.org'', name = Str ''Sample'',
            version = Str ''1.0'', unpack = Bool False\<rparr>"
proof -
  obtain d where d: "parseInstallRdf_doc ''/addons/sample'' (sample_rdf_doc [(''em:unpack'', Arr [Str []])]) = Inr d"
    and r: "d = \<lparr>addon_id = Str ''sample@example.org'', name = Str ''Sample'',
                 version = Str ''1.0'', unpack = unpack d\<rparr>"
    by (simp add: legacy_defs)
  have "unpack d = Bool False"
    using legacy_unpack_empty_text [OF sample_em sample_rdf sample_desc d, of "[]"]
    by (simp add: sample_description_def)
  then show ?thesis using d r by simp
qed

subsection \<open>The number of root elements\<close>

text \<open>
  On a document that is an object with no member or with more than one, namespace
  resolution fails with the malformed-manifest error, and so does the legacy parser.
\<close>

lemma object_root_count:
  assumes "ownProps doc = Inr roots" and "length roots \<noteq> 1"
  shows "getNamespaceId addonPath doc url
           = Inl (AddonFormatError (''Malformed manifest for add-on '' @ addonPath))
       \<and> parseInstallRdf_doc addonPath doc
           = Inl (AddonFormatError (''Malformed manifest for add-on '' @ addonPath))
       \<and> (parseString L text = Inr doc \<longrightarrow>
            parseInstallRdf L addonPath text
              = Inl (AddonFormatError (''Malformed manifest for add-on '' @ addonPath)))"
  using assms
  by (simp add: getNamespaceId_def parseInstallRdf_doc_def parseInstallRdf_def andThen_def)

text \<open>
  Claim C8 says that a parsed document without a root element makes namespace
  resolution, and hence the legacy parser, fail with the malformed-manifest error. The
  document without a root that \<^verbatim>\<open>xml2js\<close> delivers, for a blank text, is
  \<^verbatim>\<open>null\<close>; on it \<^verbatim>\<open>Object.keys(doc)\<close> throws before the test of the number of
  keys is reached, and the failure is a TypeError.
\<close>

theorem legacy_root_count_null:
  "getNamespaceId ''/addons/sample'' Null em_uri = Inl TypeError
   \<and> parseInstallRdf_doc ''/addons/sample'' Null = Inl TypeError
   \<and> parseString sample_libs [] = Inr Null
   \<and> parseInstallRdf sample_libs ''/addons/sample'' [] = Inl TypeError"
  by (simp add: getNamespaceId_def parseInstallRdf_doc_def parseInstallRdf_def andThen_def
        sample_libs_def sample_rdf_text_def)

subsection \<open>The modern manifest\<close>

lemma guard_step:
  "(if \<not> truthy a then Inl e
    else andThen (getProp a k) (\<lambda>c. if \<not> truthy c then Inl e else g c))
   = (case member a k of None \<Rightarrow> Inl e | Some c \<Rightarrow> if \<not> truthy c then Inl e else g c)"
  by (cases a) (auto simp: andThen_def split: option.splits)

lemma guard_outer:
  "(if \<not> truthy a then Inl e
    else andThen (getProp a k) (\<lambda>c. case member c k' of None \<Rightarrow> Inl e | Some i \<Rightarrow> h i))
   = (case member a k of None \<Rightarrow> Inl e
      | Some c \<Rightarrow> (case member c k' of None \<Rightarrow> Inl e | Some i \<Rightarrow> h i))"
  by (cases a) (auto simp: andThen_def split: option.splits)

lemma parseManifestJson_Obj:
  "parseManifestJson addonPath (Obj kvs) =
     (case atPath (Obj kvs) [''applications'', ''gecko'', ''id''] of
        None \<Rightarrow> Inl (AddonFormatError (''Could not find add-on ID for '' @ addonPath))
      | Some i \<Rightarrow>
          if truthy i
          then Inr \<lparr>addon_id = i,
                    name = (case map_of kvs ''name'' of Some v \<Rightarrow> v | None \<Rightarrow> Undefined),
                    version = (case map_of kvs ''version'' of Some v \<Rightarrow> v | None \<Rightarrow> Undefined),
                    unpack = Bool False\<rparr>
          else Inl (AddonFormatError (''Could not find add-on ID for '' @ addonPath)))"
  unfolding parseManifestJson_def guard_step guard_outer
  by (simp add: andThen_def split: option.splits)

text \<open>
  Claim C5, as amended. For every modern manifest object: when a segment of the path
  \<^verbatim>\<open>applications.gecko.id\<close> is absent, or the id is present but is a value that
  JavaScript takes for false (the empty string, zero, false, null), parsing fails with
  the malformed-manifest error; when the id is present and is any other value, the
  descriptor carries that very value as its id; and every descriptor the parser returns
  has the boolean false as its unpack field.
\<close>

theorem modern_manifest_id:
  "(atPath (Obj kvs) [''applications'', ''gecko'', ''id''] = None \<longrightarrow>
      parseManifestJson addonPath (Obj kvs)
        = Inl (AddonFormatError (''Could not find add-on ID for '' @ addonPath)))
   \<and> (atPath (Obj kvs) [''applications'', ''gecko'', ''id''] = Some i \<and> \<not> truthy i \<longrightarrow>
      parseManifestJson addonPath (Obj kvs)
        = Inl (AddonFormatError (''Could not find add-on ID for '' @ addonPath)))
   \<and> (atPath (Obj kvs) [''applications'', ''gecko'', ''id''] = Some i \<and> truthy i \<longrightarrow>
        (\<exists>d. parseManifestJson addonPath (Obj kvs) = Inr d \<and> addon_id d = i
              \<and> unpack d = Bool False))
   \<and> (parseManifestJson addonPath (Obj kvs) = Inr d \<longrightarrow> unpack d = Bool False)"
  unfolding parseManifestJson_Obj
  by (auto split: option.splits if_splits)

text \<open>
  The claim as first stated fails on a manifest whose id is present and empty: the id
  is not copied into a descriptor, parsing fails.
\<close>

theorem modern_manifest_id_counterexample:
  "atPath (Obj [(''applications'', Obj [(''gecko'', Obj [(''id'', Str [])])])])
     [''applications'', ''gecko'', ''id''] = Some (Str [])
   \<and> parseManifestJson ''/addons/sample''
       (Obj [(''applications'', Obj [(''gecko'', Obj [(''id'', Str [])])])])
     = Inl (AddonFormatError ''Could not find add-on ID for /addons/sample'')"
  by (simp add: parseManifestJson_def andThen_def)

theorem modern_manifest_id_witness:
  "parseManifestJson ''/addons/sample'' sample_manifest
     = Inr \<lparr>addon_id = Str ''sample@example.org'', name = Str ''Sample'',
            version = Str ''1.0'', unpack = Bool False\<rparr>
   \<and> parseManifestJson ''/addons/sample'' (Obj [(''applications'', Obj [(''gecko'', Obj [])])])
     = Inl (AddonFormatError ''Could not find add-on ID for /addons/sample'')
   \<and> parseManifestJson ''/addons/sample''
       (Obj [(''applications'', Obj [(''gecko'', Obj [(''id'', Num 0)])])])
     = Inl (AddonFormatError ''Could not find add-on ID for /addons/sample'')"
proof -
  let ?kvs = "[(''name'', Str ''Sample''), (''version'', Str ''1.0''),
               (''applications'', Obj [(''gecko'', Obj [(''id'', Str ''sample@example.org'')])])]"
  let ?d = "\<lparr>addon_id = Str ''sample@example.org'', name = Str ''Sample'',
              version = Str ''1.0'', unpack = Bool False\<rparr>"
  have p: "atPath (Obj ?kvs) [''applications'', ''gecko'', ''id''] = Some (Str ''sample@example.org'')
           \<and> truthy (Str ''sample@example.org'')"
    by simp
  have r: "parseManifestJson ''/addons/sample'' (Obj ?kvs) = Inr ?d"
    by (simp add: parseManifestJson_def andThen_def)
  have "unpack ?d = Bool False \<and> addon_id ?d = Str ''sample@example.org''"
    using modern_manifest_id [of ?kvs "''/addons/sample''" "Str ''sample@example.org''" ?d] p r
    by auto
  moreover have "atPath (Obj [(''applications'', Obj [(''gecko'', Obj [])])])
                   [''applications'', ''gecko'', ''id''] = None"
    by simp
  moreover have "atPath (Obj [(''applications'', Obj [(''gecko'', Obj [(''id'', Num 0)])])])
                   [''applications'', ''gecko'', ''id''] = Some (Num 0) \<and> \<not> truthy (Num 0)"
    by simp
  ultimately show ?thesis
    using r modern_manifest_id [of "[(''applications'', Obj [(''gecko'', Obj [])])]" "''/addons/sample''"
            "Null" ?d]
          modern_manifest_id [of "[(''applications'', Obj [(''gecko'', Obj [(''id'', Num 0)])])]"
            "''/addons/sample''" "Num 0" ?d]
    by (simp add: sample_manifest_def)
qed

subsection \<open>Which errors the parts raise\<close>

lemma andThen_Inl: "andThen m f = Inl e \<Longrightarrow> m = Inl e \<or> (\<exists>x. m = Inr x \<and> f x = Inl e)"
  by (cases m) (simp_all add: andThen_def)

lemma getProp_error: "getProp v k = Inl e \<Longrightarrow> e = TypeError"
  by (cases v) simp_all

lemma index0_error: "index0 v = Inl e \<Longrightarrow> e = TypeError"
  by (cases v) simp_all

lemma ownProps_error: "ownProps v = Inl e \<Longrightarrow> e = TypeError"
  by (cases v) simp_all

lemma getNodeText_error: "getNodeText v k = Inl e \<Longrightarrow> e = TypeError"
  unfolding getNodeText_def
  by (auto dest!: andThen_Inl dest: getProp_error index0_error split: if_splits)

lemma getNamespaceId_error:
  "getNamespaceId p doc url = Inl e \<Longrightarrow>
     e = TypeError \<or> e = AddonFormatError (''Malformed manifest for add-on '' @ p)"
  unfolding getNamespaceId_def
  by (auto dest!: andThen_Inl dest: getProp_error ownProps_error split: if_splits)

lemma getDescription_error: "getDescription doc rdf = Inl e \<Longrightarrow> e = TypeError"
  unfolding getDescription_def
  by (auto dest!: andThen_Inl dest: getProp_error index0_error)

lemma parseInstallRdf_doc_error:
  "parseInstallRdf_doc p doc = Inl e \<Longrightarrow> e = TypeError \<or> (\<exists>m. e = AddonFormatError m)"
  unfolding parseInstallRdf_doc_def
  by (auto dest!: andThen_Inl dest: getNodeText_error getDescription_error getNamespaceId_error split: if_splits)

lemma parseInstallRdf_error:
  "parseInstallRdf L p text = Inl e \<Longrightarrow> e = TypeError \<or> (\<exists>m. e = AddonFormatError m) \<or> (\<exists>m. e = XmlError m)"
  unfolding parseInstallRdf_def
  by (auto dest: parseInstallRdf_doc_error split: sum.splits)

lemma parseManifestJson_error:
  "parseManifestJson p json = Inl e \<Longrightarrow> e = TypeError \<or> (\<exists>m. e = AddonFormatError m)"
  unfolding parseManifestJson_def
  by (auto dest!: andThen_Inl getProp_error split: if_splits)

lemma parseJson_error: "parseJson L buf = Inl e \<Longrightarrow> \<exists>m. e = SyntaxError m"
  unfolding parseJson_def by (auto split: sum.splits)

lemma io_read_error: "io_read w p = Inl e \<Longrightarrow> \<exists>op m. e = IoError op m"
  unfolding io_read_def by (auto split: option.splits fsnode.splits)

lemma io_copy_error: "io_copy s d w = Inl e \<Longrightarrow> \<exists>op m. e = IoError op m"
  unfolding io_copy_def by (auto split: option.splits fsnode.splits)

lemma io_copyDir_error: "io_copyDir s d w = Inl e \<Longrightarrow> \<exists>op m. e = IoError op m"
  unfolding io_copyDir_def by (auto split: if_splits)

lemma zip_load_error: "zip_load L w p = Inl e \<Longrightarrow> (\<exists>op m. e = IoError op m) \<or> (\<exists>m. e = ZipError m)"
  unfolding zip_load_def
  by (auto dest!: andThen_Inl dest: io_read_error split: sum.splits)

lemma zip_unzip_error: "zip_unzip L s d w = Inl e \<Longrightarrow> (\<exists>op m. e = IoError op m) \<or> (\<exists>m. e = ZipError m)"
  unfolding zip_unzip_def
  by (auto dest!: andThen_Inl dest: zip_load_error)

lemma archive_getFile_error: "archive_getFile a n = Inl e \<Longrightarrow> \<exists>m. e = ZipError m"
  unfolding archive_getFile_def by (auto split: option.splits)

lemma parseXpiFile_not_JsError: "parseXpiFile L w p f \<noteq> Inl (JsError m)"
proof
  assume "parseXpiFile L w p f = Inl (JsError m)"
  then show False
    unfolding parseXpiFile_def
    by (auto dest!: andThen_Inl dest: zip_load_error archive_getFile_error parseInstallRdf_error
          parseJson_error parseManifestJson_error split: if_splits)
qed

lemma parseDirectory_not_JsError: "parseDirectory L w p f \<noteq> Inl (JsError m)"
proof
  assume "parseDirectory L w p f = Inl (JsError m)"
  then show False
    unfolding parseDirectory_def Let_def
    by (auto dest!: andThen_Inl dest: io_read_error parseInstallRdf_error
          parseJson_error parseManifestJson_error split: if_splits)
qed

lemma getDetails_JsError:
  "getDetails L w p = Inl (JsError m) \<Longrightarrow>
     io_stat w p = Inr False \<and> slice_last4 p \<noteq> ''.xpi''
     \<and> m = ''Add-on path is not an xpi or a directory: '' @ p"
  unfolding getDetails_def
  by (auto dest!: andThen_Inl simp: parseXpiFile_not_JsError parseDirectory_not_JsError io_stat_def
        split: if_splits option.splits fsnode.splits)

lemma joinId_error: "joinId L dir i = Inl e \<Longrightarrow> e = TypeError"
  unfolding joinId_def by (cases i) simp_all

subsection \<open>Failure of stat and the invalid-source error\<close>

text \<open>
  Claim C9. For every path on which the stat operation fails, install rejects with that
  very error, the error of stat on a path that names nothing, whatever the suffix of
  the path and before any manifest or archive is read;
  and install rejects with the invalid-source error exactly on the paths for which stat
  succeeds and which are neither a directory nor end in \<^verbatim>\<open>.xpi\<close>.
\<close>

theorem install_stat_failure:
  "(io_stat w p = Inl e \<longrightarrow> install L p dir w = Inl e)
   \<and> (w p = None \<longrightarrow> install L p dir w = Inl (IoError ''stat'' p))
   \<and> (install L p dir w = Inl (JsError m) \<longrightarrow>
        io_stat w p = Inr False \<and> slice_last4 p \<noteq> ''.xpi''
        \<and> m = ''Add-on path is not an xpi or a directory: '' @ p)
   \<and> (io_stat w p = Inr False \<and> slice_last4 p \<noteq> ''.xpi'' \<longrightarrow>
        install L p dir w = Inl (JsError (''Add-on path is not an xpi or a directory: '' @ p)))"
proof -
  have 1: "install L p dir w = Inl e" if "io_stat w p = Inl e"
    using that by (simp add: install_def getDetails_def andThen_def)
  have 2: "io_stat w p = Inr False \<and> slice_last4 p \<noteq> ''.xpi''
        \<and> m = ''Add-on path is not an xpi or a directory: '' @ p"
    if a: "install L p dir w = Inl (JsError m)"
  proof -
    have "getDetails L w p = Inl (JsError m)"
      using a unfolding install_def
      by (auto dest!: andThen_Inl dest: joinId_error io_copy_error zip_unzip_error io_copyDir_error
            split: if_splits)
    then show ?thesis by (rule getDetails_JsError)
  qed
  have 3: "install L p dir w = Inl (JsError (''Add-on path is not an xpi or a directory: '' @ p))"
    if "io_stat w p = Inr False \<and> slice_last4 p \<noteq> ''.xpi''"
    using that by (simp add: install_def getDetails_def andThen_def)
  have 4: "install L p dir w = Inl (IoError ''stat'' p)" if "w p = None"
    using that by (simp add: install_def getDetails_def andThen_def io_stat_def)
  show ?thesis using 1 2 3 4 by blast
qed

subsection \<open>The manifest of a directory\<close>

text \<open>
  Claim C3. For every directory source: when it holds a file install.rdf, that file
  is parsed by the legacy parser, whether or not manifest.json is there too; when it
  holds no install.rdf but a file manifest.json, that file is parsed as JSON and
  handed to the modern parser; when it holds neither, the operation fails with the
  malformed-manifest error whose message ends in the directory's path.
\<close>

theorem directory_manifest_dispatch:
  assumes "io_stat w dirPath = Inr True"
  shows "(w (path_join L dirPath ''install.rdf'') = Some (File rdf) \<longrightarrow>
            getDetails L w dirPath = parseInstallRdf L dirPath rdf)
       \<and> (w (path_join L dirPath ''install.rdf'') = None
          \<and> w (path_join L dirPath ''manifest.json'') = Some (File json) \<longrightarrow>
            getDetails L w dirPath = andThen (parseJson L json) (parseManifestJson dirPath))
       \<and> (w (path_join L dirPath ''install.rdf'') = None
          \<and> w (path_join L dirPath ''manifest.json'') = None \<longrightarrow>
            getDetails L w dirPath
              = Inl (AddonFormatError (''Couldn't find install.rdf or manifest.json in '' @ dirPath)))"
  using assms
  by (simp add: getDetails_def parseDirectory_def andThen_def io_exists_def io_read_def)

theorem install_stat_failure_witness:
  "install sample_libs ''/src/missing.xpi'' ''/profile/extensions'' sample_world
     = Inl (IoError ''stat'' ''/src/missing.xpi'')
   \<and> install sample_libs ''/src/notes.txt'' ''/profile/extensions'' sample_world
     = Inl (JsError ''Add-on path is not an xpi or a directory: /src/notes.txt'')"
proof -
  have s1: "io_stat sample_world ''/src/missing.xpi'' = Inl (IoError ''stat'' ''/src/missing.xpi'')"
    by (simp add: io_stat_def sample_world_def)
  have s2: "io_stat sample_world ''/src/notes.txt'' = Inr False \<and> slice_last4 ''/src/notes.txt'' \<noteq> ''.xpi''"
    by (simp add: io_stat_def sample_world_def slice_last4_def)
  show ?thesis
    using install_stat_failure [of sample_world "''/src/missing.xpi''" "IoError ''stat'' ''/src/missing.xpi''"
            sample_libs "''/profile/extensions''" "[]"] s1
          install_stat_failure [of sample_world "''/src/notes.txt''" "IoError [] []" sample_libs "''/profile/extensions''" "[]"] s2
    by simp
qed

theorem directory_manifest_dispatch_witness:
  "getDetails sample_libs sample_world ''/src/legacy''
     = Inr \<lparr>addon_id = Str ''sample@example.org'', name = Str ''Sample'',
            version = Str ''1.0'', unpack = Bool False\<rparr>
   \<and> getDetails sample_libs sample_world ''/src/modern''
     = Inr \<lparr>addon_id = Str ''sample@example.org'', name = Str ''Sample'',
            version = Str ''1.0'', unpack = Bool False\<rparr>
   \<and> getDetails sample_libs sample_world ''/src/empty''
     = Inl (AddonFormatError ''Couldn't find install.rdf or manifest.json in /src/empty'')"
proof -
  have 1: "io_stat sample_world ''/src/legacy'' = Inr True"
    and 2: "io_stat sample_world ''/src/modern'' = Inr True"
    and 3: "io_stat sample_world ''/src/empty'' = Inr True"
    by (simp_all add: io_stat_def sample_world_def)
  have l: "sample_world (path_join sample_libs ''/src/legacy'' ''install.rdf'') = Some (File sample_rdf_text)"
    by (simp add: sample_world_def sample_libs_def)
  have m: "sample_world (path_join sample_libs ''/src/modern'' ''install.rdf'') = None
         \<and> sample_world (path_join sample_libs ''/src/modern'' ''manifest.json'') = Some (File sample_json_text)"
    by (simp add: sample_world_def sample_libs_def)
  have e: "sample_world (path_join sample_libs ''/src/empty'' ''install.rdf'') = None
         \<and> sample_world (path_join sample_libs ''/src/empty'' ''manifest.json'') = None"
    by (simp add: sample_world_def sample_libs_def)
  have pl: "parseInstallRdf sample_libs ''/src/legacy'' sample_rdf_text
     = Inr \<lparr>addon_id = Str ''sample@example.org'', name = Str ''Sample'',
            version = Str ''1.0'', unpack = Bool False\<rparr>"
    by (simp add: parseInstallRdf_def sample_libs_def legacy_defs)
  have pm: "andThen (parseJson sample_libs sample_json_text) (parseManifestJson ''/src/modern'')
     = Inr \<lparr>addon_id = Str ''sample@example.org'', name = Str ''Sample'',
            version = Str ''1.0'', unpack = Bool False\<rparr>"
    by (simp add: parseJson_def sample_libs_def parseManifestJson_def andThen_def sample_manifest_def)
  show ?thesis
    using directory_manifest_dispatch [OF 1, of sample_libs sample_rdf_text "[]"] l pl
          directory_manifest_dispatch [OF 2, of sample_libs "[]" sample_json_text] m pm
          directory_manifest_dispatch [OF 3, of sample_libs "[]" "[]"] e
    by simp
qed

subsection \<open>Resolving a namespace prefix\<close>

lemma split_on_nonempty: "split_on c s \<noteq> []"
  by (induction s) (auto split: list.splits)

lemma split_on_hd: "hd (split_on c s) = takeWhile (\<lambda>x. x \<noteq> c) s"
  by (induction s) (auto split: list.splits simp: split_on_nonempty)

lemma split_on_tl:
  "c \<in> set s \<Longrightarrow> tl (split_on c s) = split_on c (tl (dropWhile (\<lambda>x. x \<noteq> c) s))"
  by (induction s) (auto split: list.splits simp: split_on_nonempty)

lemma split_on_second:
  assumes "c \<in> set s"
  shows "(case split_on c s of _ # p # _ \<Rightarrow> p | _ \<Rightarrow> u)
           = takeWhile (\<lambda>x. x \<noteq> c) (tl (dropWhile (\<lambda>x. x \<noteq> c) s))"
proof -
  obtain a r where ar: "split_on c s = a # r"
    using split_on_nonempty [of c s] by (cases "split_on c s") auto
  let ?s' = "tl (dropWhile (\<lambda>x. x \<noteq> c) s)"
  have r: "r = split_on c ?s'"
    using split_on_tl [OF assms] ar by simp
  obtain p q where pq: "split_on c ?s' = p # q"
    using split_on_nonempty [of c ?s'] by (cases "split_on c ?s'") auto
  have "p = takeWhile (\<lambda>x. x \<noteq> c) ?s'"
    using split_on_hd [of c ?s'] pq by simp
  then show ?thesis using ar r pq by simp
qed

lemma scanNamespaces_first:
  "Str url \<notin> snd ` set before \<Longrightarrow>
     scanNamespaces (before @ (ns, Str url) # after) url
       = (if CHR '':'' \<in> set ns
          then takeWhile (\<lambda>c. c \<noteq> CHR '':'') (tl (dropWhile (\<lambda>c. c \<noteq> CHR '':'') ns)) @ '':''
          else [])"
  by (induction before) (auto simp: split_on_second)

lemma scanNamespaces_none: "Str url \<notin> snd ` set nss \<Longrightarrow> scanNamespaces nss url = []"
  by (induction nss) auto

lemma prefix_part:
  "CHR '':'' \<notin> set x \<Longrightarrow> CHR '':'' \<notin> set p \<Longrightarrow>
     takeWhile (\<lambda>c. c \<noteq> CHR '':'') (tl (dropWhile (\<lambda>c. c \<noteq> CHR '':'') (x @ '':'' @ p))) = p"
  by (induction x) (auto simp: takeWhile_eq_all_conv)

lemma getNamespaceId_scan:
  assumes "ownProps doc = Inr [(rootName, root)]"
    and "getProp root ''$'' = Inr attrs"
    and "ownProps attrs = Inr nss"
  shows "getNamespaceId addonPath doc url = Inr (scanNamespaces nss url)"
  using assms by (simp add: getNamespaceId_def andThen_def)

text \<open>
  Claim C6, as amended. For a document with a single root element that carries
  attributes, the first attribute of that element, in document order, whose value is
  the target URI decides the result: when its name contains a colon, the result is the
  part of the name between its first colon and the next one (or the end), followed by
  a colon, which for a name \<^verbatim>\<open>xmlns:p\<close> is \<^verbatim>\<open>p:\<close>; when its name has no colon,
  or when no attribute has the URI as its value, the result is the empty string.
  Nothing is said here of a root element without attributes.
\<close>

theorem namespace_first_binding:
  assumes "ownProps doc = Inr [(rootName, root)]"
    and "getProp root ''$'' = Inr attrs"
    and "ownProps attrs = Inr nss"
  shows "(nss = before @ (ns, Str url) # after \<and> Str url \<notin> snd ` set before
            \<and> CHR '':'' \<in> set ns \<longrightarrow>
          getNamespaceId addonPath doc url
            = Inr (takeWhile (\<lambda>c. c \<noteq> CHR '':'') (tl (dropWhile (\<lambda>c. c \<noteq> CHR '':'') ns)) @ '':''))
       \<and> (nss = before @ (x @ '':'' @ p, Str url) # after \<and> Str url \<notin> snd ` set before
            \<and> CHR '':'' \<notin> set x \<and> CHR '':'' \<notin> set p \<longrightarrow>
          getNamespaceId addonPath doc url = Inr (p @ '':''))
       \<and> (nss = before @ (ns, Str url) # after \<and> Str url \<notin> snd ` set before
            \<and> CHR '':'' \<notin> set ns \<longrightarrow>
          getNamespaceId addonPath doc url = Inr [])
       \<and> (Str url \<notin> snd ` set nss \<longrightarrow> getNamespaceId addonPath doc url = Inr [])"
proof -
  have g: "getNamespaceId addonPath doc url = Inr (scanNamespaces nss url)"
    using assms by (rule getNamespaceId_scan)
  have "scanNamespaces (before @ (x @ '':'' @ p, Str url) # after) url = p @ '':''"
    if "Str url \<notin> snd ` set before" "CHR '':'' \<notin> set x" "CHR '':'' \<notin> set p"
    using that scanNamespaces_first [of url before "x @ '':'' @ p" after] prefix_part [of x p]
    by simp
  then show ?thesis
    unfolding g by (auto simp: scanNamespaces_first scanNamespaces_none)
qed

text \<open>
  The claim as first stated fails where the URI is bound twice: here the root declares
  the metadata namespace both as the default namespace and under the prefix
  \<^verbatim>\<open>em\<close>, and the result is the empty string, not \<^verbatim>\<open>em:\<close>.
\<close>

theorem namespace_first_binding_counterexample:
  "getNamespaceId ''/addons/sample''
     (Obj [(''RDF'', Obj [(''$'', Obj [(''xmlns'', Str em_uri), (''xmlns:em'', Str em_uri)])])])
     em_uri = Inr []
   \<and> getNamespaceId ''/addons/sample''
     (Obj [(''RDF'', Obj [(''$'', Obj [(''xmlns'', Str em_uri), (''xmlns:em'', Str em_uri)])])])
     em_uri \<noteq> Inr ''em:''"
  by (simp add: getNamespaceId_def andThen_def em_uri_def)

theorem namespace_first_binding_witness:
  "getNamespaceId ''/addons/sample'' (sample_rdf_doc []) em_uri = Inr ''em:''
   \<and> getNamespaceId ''/addons/sample'' (sample_rdf_doc []) rdf_uri = Inr []
   \<and> getNamespaceId ''/addons/sample'' (sample_rdf_doc []) ''urn:other'' = Inr []"
proof -
  let ?attrs = "[(''xmlns'', Str rdf_uri), (''xmlns:em'', Str em_uri)]"
  let ?root = "Obj [(''$'', Obj ?attrs), (''Description'', Arr [sample_description []])]"
  have 1: "ownProps (sample_rdf_doc []) = Inr [(''RDF'', ?root)]"
    by (simp add: sample_rdf_doc_def)
  have 2: "getProp ?root ''$'' = Inr (Obj ?attrs)" by simp
  have 3: "ownProps (Obj ?attrs) = Inr ?attrs" by simp
  have a: "?attrs = [(''xmlns'', Str rdf_uri)] @ (''xmlns'' @ '':'' @ ''em'', Str em_uri) # []
           \<and> Str em_uri \<notin> snd ` set [(''xmlns'', Str rdf_uri)]
           \<and> CHR '':'' \<notin> set ''xmlns'' \<and> CHR '':'' \<notin> set ''em''"
    by (simp add: em_uri_def rdf_uri_def)
  have b: "?attrs = [] @ (''xmlns'', Str rdf_uri) # [(''xmlns:em'', Str em_uri)]
           \<and> Str rdf_uri \<notin> snd ` set ([] :: (string \<times> jsval) list)
           \<and> CHR '':'' \<notin> set ''xmlns''"
    by simp
  have c: "Str ''urn:other'' \<notin> snd ` set ?attrs"
    by (simp add: em_uri_def rdf_uri_def)
  have "getNamespaceId ''/addons/sample'' (sample_rdf_doc []) em_uri = Inr (''em'' @ '':'')"
    using namespace_first_binding [OF 1 2 3, of "[(''xmlns'', Str rdf_uri)]" "[]" em_uri "[]"
            "''/addons/sample''" "''xmlns''" "''em''"] a
    by blast
  moreover have "getNamespaceId ''/addons/sample'' (sample_rdf_doc []) rdf_uri = Inr []"
    using namespace_first_binding [OF 1 2 3, of "[]" "''xmlns''" rdf_uri "[(''xmlns:em'', Str em_uri)]"
            "''/addons/sample''" "[]" "[]"] b
    by blast
  moreover have "getNamespaceId ''/addons/sample'' (sample_rdf_doc []) ''urn:other'' = Inr []"
    using namespace_first_binding [OF 1 2 3, of "[]" "[]" "''urn:other''" "[]" "''/addons/sample''" "[]" "[]"] c
    by blast
  ultimately show ?thesis by simp
qed

subsection \<open>How the legacy parser fails\<close>

lemma getNamespaceId_any_url:
  "getNamespaceId p doc u = Inr r \<Longrightarrow> \<exists>r'. getNamespaceId p doc u' = Inr r'"
  unfolding getNamespaceId_def andThen_def
  by (auto split: sum.splits if_splits)

lemma getNamespaceId_AddonFormatError:
  "getNamespaceId p doc u = Inl (AddonFormatError m) \<Longrightarrow>
     (\<exists>roots. ownProps doc = Inr roots \<and> length roots \<noteq> 1)
     \<and> m = ''Malformed manifest for add-on '' @ p"
  unfolding getNamespaceId_def
  by (auto dest!: andThen_Inl dest: getProp_error ownProps_error split: if_splits)

lemma getDescription_absent:
  assumes "atPath doc [a, b] = None"
  shows "andThen (getProp doc a) (\<lambda>r. andThen (getProp r b) index0) = Inl TypeError"
proof (cases "member doc a")
  case None
  then show ?thesis by (cases doc) (simp_all add: andThen_def)
next
  case (Some r)
  then have d: "getProp doc a = Inr r" by (cases doc) simp_all
  have "member r b = None" using assms Some by (simp split: option.splits)
  then have "andThen (getProp r b) index0 = Inl TypeError"
    by (cases r) (simp_all add: andThen_def)
  then show ?thesis by (simp add: d andThen_def)
qed

text \<open>
  Claim C4, as amended. For every input text that the XML library rejects, the legacy
  parser fails with the library's own error, passed on unchanged, which is not the
  malformed-manifest error. For a blank text, which the library answers with a null
  document, and for every parsed document on which namespace resolution succeeds and
  which lacks the RDF/Description node, the parser fails and returns no descriptor;
  which error it fails with is left open here.
\<close>

theorem legacy_parse_failures:
  "(parseString L text = Inl m \<longrightarrow> parseInstallRdf L addonPath text = Inl (XmlError m))
   \<and> (parseString L text = Inr Null \<longrightarrow> isl (parseInstallRdf L addonPath text))
   \<and> (getNamespaceId addonPath doc rdf_uri = Inr rdf
        \<and> atPath doc [rdf @ ''RDF'', rdf @ ''Description''] = None \<longrightarrow>
      isl (parseInstallRdf_doc addonPath doc))"
proof -
  have 1: "parseInstallRdf L addonPath text = Inl (XmlError m)" if "parseString L text = Inl m"
    using that by (simp add: parseInstallRdf_def)
  have 2: "isl (parseInstallRdf L addonPath text)" if "parseString L text = Inr Null"
    using that
    by (simp add: parseInstallRdf_def parseInstallRdf_doc_def getNamespaceId_def andThen_def)
  have 3: "isl (parseInstallRdf_doc addonPath doc)"
    if r: "getNamespaceId addonPath doc rdf_uri = Inr rdf"
      and a: "atPath doc [rdf @ ''RDF'', rdf @ ''Description''] = None"
  proof -
    obtain em where em: "getNamespaceId addonPath doc em_uri = Inr em"
      using getNamespaceId_any_url [OF r] by blast
    have "getDescription doc rdf = Inl TypeError"
      unfolding getDescription_def using a by (rule getDescription_absent)
    then show ?thesis
      by (simp add: parseInstallRdf_doc_def em r andThen_def)
  qed
  show ?thesis using 1 2 3 by blast
qed

text \<open>
  The claim as first stated fails on a text that is not XML: the parser's error is the
  one the XML library reports, not the malformed-manifest error.
\<close>

theorem legacy_parse_failures_counterexample:
  "parseString sample_libs ''<RDF'' = Inl ''Unclosed root tag''
   \<and> parseInstallRdf sample_libs ''/addons/sample'' ''<RDF'' = Inl (XmlError ''Unclosed root tag'')"
  by (simp add: parseInstallRdf_def sample_libs_def sample_rdf_text_def)

theorem legacy_parse_failures_witness:
  "parseInstallRdf sample_libs ''/addons/sample'' ''<RDF'' = Inl (XmlError ''Unclosed root tag'')
   \<and> isl (parseInstallRdf sample_libs ''/addons/sample'' [])
   \<and> isl (parseInstallRdf_doc ''/addons/sample''
       (Obj [(''RDF'', Obj [(''$'', Obj [(''xmlns'', Str rdf_uri), (''xmlns:em'', Str em_uri)])])]))"
proof -
  let ?doc = "Obj [(''RDF'', Obj [(''$'', Obj [(''xmlns'', Str rdf_uri), (''xmlns:em'', Str em_uri)])])]"
  have p: "parseString sample_libs ''<RDF'' = Inl ''Unclosed root tag''"
    by (simp add: sample_libs_def sample_rdf_text_def)
  have q: "parseString sample_libs [] = Inr Null"
    by (simp add: sample_libs_def sample_rdf_text_def)
  have n: "getNamespaceId ''/addons/sample'' ?doc rdf_uri = Inr []
           \<and> atPath ?doc [[] @ ''RDF'', [] @ ''Description''] = None"
    by (simp add: getNamespaceId_def andThen_def em_uri_def rdf_uri_def)
  show ?thesis
    using legacy_parse_failures [of sample_libs "''<RDF''" "''Unclosed root tag''" "''/addons/sample''"
            ?doc "[]"] p n
          legacy_parse_failures [of sample_libs "[]" "[]" "''/addons/sample''" ?doc "[]"] q
    by blast
qed

subsection \<open>Installing\<close>

lemma sample_join: "path_join sample_libs a b = a @ ''/'' @ b"
  by (simp add: sample_libs_def)

text \<open>
  Claim C1. For every source path ending in \<^verbatim>\<open>.xpi\<close> that names a regular file
  and whose parsed descriptor has unpack false, install leaves the filesystem changed
  at exactly one path, \<open>destDir/id.xpi\<close>, which afterwards holds the bytes of the
  source, and resolves to the descriptor's id.
\<close>

theorem install_packed_archive:
  assumes "slice_last4 src = ''.xpi''"
    and "w src = Some (File bytes)"
    and "getDetails L w src = Inr d"
    and "unpack d = Bool False"
    and "addon_id d = Str i"
  shows "install L src dir w = Inr (Str i, w(path_join L dir i @ ''.xpi'' \<mapsto> File bytes))"
  using assms by (simp add: install_def andThen_def joinId_def io_copy_def)

lemma sample_xpi_details:
  "getDetails sample_libs sample_world ''/src/sample.xpi''
     = Inr \<lparr>addon_id = Str ''sample@example.org'', name = Str ''Sample'',
            version = Str ''1.0'', unpack = Bool False\<rparr>"
  by (simp add: locate_defs sample_defs andThen_def)

theorem install_packed_archive_witness:
  "install sample_libs ''/src/sample.xpi'' ''/profile/extensions'' sample_world
     = Inr (Str ''sample@example.org'',
            sample_world(''/profile/extensions/sample@example.org.xpi'' \<mapsto> File sample_xpi_bytes))"
proof -
  have 1: "slice_last4 ''/src/sample.xpi'' = ''.xpi''" by (simp add: slice_last4_def)
  have 2: "sample_world ''/src/sample.xpi'' = Some (File sample_xpi_bytes)"
    by (simp add: sample_world_def)
  have 3: "unpack \<lparr>addon_id = Str ''sample@example.org'', name = Str ''Sample'',
            version = Str ''1.0'', unpack = Bool False\<rparr> = Bool False" by simp
  have 4: "addon_id \<lparr>addon_id = Str ''sample@example.org'', name = Str ''Sample'',
            version = Str ''1.0'', unpack = Bool False\<rparr> = Str ''sample@example.org''" by simp
  show ?thesis
    using install_packed_archive [OF 1 2 sample_xpi_details 3 4, of "''/profile/extensions''"]
    by (simp add: sample_join)
qed

lemma sample_dir_xpi_details:
  "getDetails sample_libs sample_world ''/src/dir.xpi''
     = Inr \<lparr>addon_id = Str ''sample@example.org'', name = Str ''Sample'',
            version = Str ''1.0'', unpack = Bool False\<rparr>"
  by (simp add: locate_defs sample_defs andThen_def)

text \<open>
  Claim C2 says that every directory source, whatever its name, is copied recursively to
  \<open>destDir/id\<close>. \<open>getDetails\<close> asks stat whether the source is a directory before
  it looks at the suffix, but \<open>install\<close> decides on the suffix alone: for the directory
  \<^verbatim>\<open>/src/dir.xpi\<close> of the sample filesystem, whose manifest is found and parsed, it
  calls the single-file copy on the directory and the installation is rejected, where
  the recursive copy would not have been.
\<close>

theorem install_directory_named_xpi:
  "io_stat sample_world ''/src/dir.xpi'' = Inr True
   \<and> install sample_libs ''/src/dir.xpi'' ''/profile/extensions'' sample_world
       = Inl (IoError ''copy'' ''/src/dir.xpi'')
   \<and> \<not> isl (io_copyDir ''/src/dir.xpi'' ''/profile/extensions/sample@example.org'' sample_world)"
proof -
  have s: "io_stat sample_world ''/src/dir.xpi'' = Inr True"
    by (simp add: io_stat_def sample_world_def)
  have c: "io_copy ''/src/dir.xpi'' ''/profile/extensions/sample@example.org.xpi'' sample_world
             = Inl (IoError ''copy'' ''/src/dir.xpi'')"
    by (simp add: io_copy_def sample_world_def)
  have i: "install sample_libs ''/src/dir.xpi'' ''/profile/extensions'' sample_world
             = Inl (IoError ''copy'' ''/src/dir.xpi'')"
    by (simp add: install_def sample_dir_xpi_details andThen_def joinId_def slice_last4_def
          sample_join c)
  have r: "\<not> isl (io_copyDir ''/src/dir.xpi'' ''/profile/extensions/sample@example.org'' sample_world)"
    by (simp add: io_copyDir_def sample_world_def)
  show ?thesis using s i r by simp
qed

text \<open>
  A directory whose path does not end in \<^verbatim>\<open>.xpi\<close> is copied as the claim says: the
  destination is a directory, every member of the source is found under it, and nothing
  outside the destination changes.
\<close>

lemma install_plain_directory:
  assumes "slice_last4 src \<noteq> ''.xpi''"
    and "w src = Some Directory"
    and "getDetails L w src = Inr d"
    and "addon_id d = Str i"
  shows "\<exists>w'. install L src dir w = Inr (Str i, w')
           \<and> w' (path_join L dir i) = Some Directory
           \<and> (\<forall>rest n. w (src @ ''/'' @ rest) = Some n \<longrightarrow>
                 w' (path_join L dir i @ ''/'' @ rest) = Some n)
           \<and> (\<forall>p. p \<noteq> path_join L dir i \<and> under (path_join L dir i) p = None \<longrightarrow> w' p = w p)"
  using assms
  by (auto simp: install_def andThen_def joinId_def io_copyDir_def under_def)

end
